theory Spec2Isabelle
  imports Main
begin

section \<open>JavaScript strings\<close>

text \<open>
  A JavaScript string is a sequence of UTF-16 code units. A code unit is modelled by its
  number (a \<open>nat\<close>, of which only \<open>0..65535\<close> occur); every French letter used by the
  program, accented ones included, is a single code unit. ASCII literals are written as HOL
  strings and converted with \<open>lit\<close>; the accented letters are named below.
\<close>

type_synonym unit16 = nat
type_synonym jsstring = "unit16 list"

definition lit :: "string \<Rightarrow> jsstring" where
  "lit s = map of_char s"

definition apostrophe :: unit16 where "apostrophe = 39"
definition a_grave :: unit16 where "a_grave = 224"
definition a_circ :: unit16 where "a_circ = 226"
definition c_cedilla :: unit16 where "c_cedilla = 231"
definition e_grave :: unit16 where "e_grave = 232"
definition e_acute :: unit16 where "e_acute = 233"
definition e_circ :: unit16 where "e_circ = 234"
definition i_circ :: unit16 where "i_circ = 238"
definition o_circ :: unit16 where "o_circ = 244"
definition u_grave :: unit16 where "u_grave = 249"
definition u_circ :: unit16 where "u_circ = 251"

lemmas unit_defs =
  lit_def apostrophe_def a_grave_def a_circ_def c_cedilla_def e_grave_def e_acute_def
  e_circ_def i_circ_def o_circ_def u_grave_def u_circ_def

text \<open>
  \<open>String.prototype.toLowerCase\<close>, one code unit at a time. The model is exact on
  Basic Latin and Latin-1 Supplement (\<open>A-Z\<close> and \<open>U+00C0..U+00DE\<close> without the
  multiplication sign move up by 32) and on the five code points outside these blocks whose
  lower case lies inside them: \<open>U+0130\<close> (which becomes the two units \<open>i\<close>,
  \<open>U+0307\<close>), \<open>U+0178\<close>, \<open>U+1E9E\<close>, the Kelvin sign \<open>U+212A\<close> and the
  Angstrom sign \<open>U+212B\<close>. Every other code unit is left as it is: the case pairs of other
  scripts are not modelled, and none of them produces a letter the program compares with.
\<close>

definition lowerUnit :: "unit16 \<Rightarrow> jsstring" where
  "lowerUnit c =
     (if 65 \<le> c \<and> c \<le> 90 then [c + 32]
      else if 192 \<le> c \<and> c \<le> 222 \<and> c \<noteq> 215 then [c + 32]
      else if c = 304 then [105, 775]
      else if c = 376 then [255]
      else if c = 7838 then [223]
      else if c = 8490 then [107]
      else if c = 8491 then [229]
      else [c])"

definition toLowerCase :: "jsstring \<Rightarrow> jsstring" where
  "toLowerCase s = concat (map lowerUnit s)"

text \<open>\<open>s.startsWith(p)\<close>, \<open>s.endsWith(p)\<close>, \<open>s.slice(0, -n)\<close>, \<open>s.charAt(0)\<close>
  (the empty string when \<open>s\<close> is empty) and \<open>xs.join(sep)\<close>.\<close>

definition startsWith :: "jsstring \<Rightarrow> jsstring \<Rightarrow> bool" where
  "startsWith s p = (take (length p) s = p)"

definition endsWith :: "jsstring \<Rightarrow> jsstring \<Rightarrow> bool" where
  "endsWith s p = (length p \<le> length s \<and> drop (length s - length p) s = p)"

definition sliceEnd :: "jsstring \<Rightarrow> nat \<Rightarrow> jsstring" where
  "sliceEnd s n = take (length s - n) s"

definition charAt0 :: "jsstring \<Rightarrow> jsstring" where
  "charAt0 s = take 1 s"

fun join :: "jsstring \<Rightarrow> jsstring list \<Rightarrow> jsstring" where
  "join sep [] = []"
| "join sep [x] = x"
| "join sep (x # y # ys) = x @ sep @ join sep (y # ys)"

text \<open>\<open>s.replace(pat, rep)\<close> with a string pattern: only the first occurrence is replaced.\<close>

fun replaceFirst :: "jsstring \<Rightarrow> jsstring \<Rightarrow> jsstring \<Rightarrow> jsstring" where
  "replaceFirst pat rep [] = (if pat = [] then rep else [])"
| "replaceFirst pat rep (c # cs) =
     (if startsWith (c # cs) pat then rep @ drop (length pat) (c # cs)
      else c # replaceFirst pat rep cs)"

section \<open>Data model (types.ts)\<close>

datatype PartOfSpeech =
    SUBJECT | VERB | VERB_AUX | VERB_INF | VERB_PP | ARTICLE | POSSESSIVE | NOUN
  | ADJECTIVE | PREPOSITION | ADVERB | OBJECT | CONNECTOR | NEGATION

text \<open>The string value of each enum member, as it appears in a word's id.\<close>

fun posValue :: "PartOfSpeech \<Rightarrow> jsstring" where
  "posValue SUBJECT = lit ''Subject''"
| "posValue VERB = lit ''Verb''"
| "posValue VERB_AUX = lit ''Auxiliary''"
| "posValue VERB_INF = lit ''Infinitive''"
| "posValue VERB_PP = lit ''Past Participle''"
| "posValue ARTICLE = lit ''Article''"
| "posValue POSSESSIVE = lit ''Possessive''"
| "posValue NOUN = lit ''Noun''"
| "posValue ADJECTIVE = lit ''Adjective''"
| "posValue PREPOSITION = lit ''Preposition''"
| "posValue ADVERB = lit ''Adverb''"
| "posValue OBJECT = lit ''Object''"
| "posValue CONNECTOR = lit ''Connector''"
| "posValue NEGATION = lit ''Negation''"

text \<open>\<open>tags\<close> and \<open>fixed\<close> are optional fields: \<open>None\<close> is \<open>undefined\<close>.\<close>

record Word =
  word_id :: jsstring
  word_text :: jsstring
  word_type :: PartOfSpeech
  word_translation :: jsstring
  word_tags :: "jsstring list option"

record SentenceSlot =
  slot_id :: jsstring
  slot_type :: PartOfSpeech
  slot_value :: "Word option"
  slot_placeholder :: jsstring
  slot_fixed :: "bool option"

text \<open>\<open>word.tags || []\<close> and \<open>word.tags?.includes(t)\<close> (\<open>undefined\<close>, which is falsy,
  when there are no tags).\<close>

definition tagsOrEmpty :: "Word \<Rightarrow> jsstring list" where
  "tagsOrEmpty w = (case word_tags w of None \<Rightarrow> [] | Some ts \<Rightarrow> ts)"

definition tagsInclude :: "Word \<Rightarrow> jsstring \<Rightarrow> bool" where
  "tagsInclude w t = (case word_tags w of None \<Rightarrow> False | Some ts \<Rightarrow> t \<in> set ts)"

section \<open>Word creation and the auxiliary tables (constants.ts)\<close>

text \<open>
  \<open>createWord\<close> draws the last part of the id from \<open>Math.random\<close>. The drawn string
  is an argument here; a table or a function that creates several words takes the sequence
  of the strings drawn, indexed by the order of the calls.
\<close>

type_synonym rand = "nat \<Rightarrow> jsstring"

definition createWord :: "jsstring \<Rightarrow> jsstring \<Rightarrow> PartOfSpeech \<Rightarrow> jsstring \<Rightarrow> jsstring list \<Rightarrow> Word" where
  "createWord r txt ty tr tgs =
     \<lparr> word_id = txt @ lit ''-'' @ posValue ty @ lit ''-'' @ r,
       word_text = txt, word_type = ty, word_translation = tr, word_tags = Some tgs \<rparr>"

definition generateErVerbs :: "rand \<Rightarrow> jsstring \<Rightarrow> jsstring \<Rightarrow> Word list" where
  "generateErVerbs r root translationBase =
     (let stem = sliceEnd root 2;
          nousForm = (if endsWith root (lit ''ger'') then stem @ lit ''eons''
                      else if endsWith root (lit ''cer'') then sliceEnd stem 1 @ [c_cedilla] @ lit ''ons''
                      else stem @ lit ''ons'');
          isYer = endsWith root (lit ''yer'');
          singularStem = (if isYer then sliceEnd stem 1 @ lit ''i'' else stem)
      in [ createWord (r 0) (singularStem @ lit ''e'') VERB (translationBase @ lit '' (Je/Il)'')
             [lit ''Je'', lit ''Il'', lit ''Elle''],
           createWord (r 1) (singularStem @ lit ''es'') VERB (translationBase @ lit '' (Tu)'')
             [lit ''Tu''],
           createWord (r 2) nousForm VERB (translationBase @ lit '' (Nous)'') [lit ''Nous''],
           createWord (r 3) (stem @ lit ''ez'') VERB (translationBase @ lit '' (Vous)'') [lit ''Vous''],
           createWord (r 4) (singularStem @ lit ''ent'') VERB (translationBase @ lit '' (Ils/Elles)'')
             [lit ''Ils'', lit ''Elles''] ])"

definition AUX_ALLER :: "rand \<Rightarrow> Word list" where
  "AUX_ALLER r =
     [ createWord (r 0) (lit ''aller'') VERB_INF (lit ''to go (Aux)'') [],
       createWord (r 1) (lit ''vais'') VERB_AUX (lit ''am going (Je)'') [lit ''Je''],
       createWord (r 2) (lit ''vas'') VERB_AUX (lit ''are going (Tu)'') [lit ''Tu''],
       createWord (r 3) (lit ''va'') VERB_AUX (lit ''is going (Il/Elle)'') [lit ''Il'', lit ''Elle''],
       createWord (r 4) (lit ''allons'') VERB_AUX (lit ''are going (Nous)'') [lit ''Nous''],
       createWord (r 5) (lit ''allez'') VERB_AUX (lit ''are going (Vous)'') [lit ''Vous''],
       createWord (r 6) (lit ''vont'') VERB_AUX (lit ''are going (Ils/Elles)'') [lit ''Ils'', lit ''Elles''],
       createWord (r 7) (lit ''all'' @ [e_acute]) VERB_PP (lit ''gone'') [] ]"

definition AUX_AVOIR_ETRE :: "rand \<Rightarrow> Word list" where
  "AUX_AVOIR_ETRE r =
     [ createWord (r 0) (lit ''avoir'') VERB_INF (lit ''to have (Aux)'') [],
       createWord (r 1) ([e_circ] @ lit ''tre'') VERB_INF (lit ''to be (Aux)'') [],
       createWord (r 2) (lit ''ai'') VERB_AUX (lit ''have (Je)'') [lit ''Je''],
       createWord (r 3) (lit ''as'') VERB_AUX (lit ''have (Tu)'') [lit ''Tu''],
       createWord (r 4) (lit ''a'') VERB_AUX (lit ''has (Il/Elle)'') [lit ''Il'', lit ''Elle''],
       createWord (r 5) (lit ''avons'') VERB_AUX (lit ''have (Nous)'') [lit ''Nous''],
       createWord (r 6) (lit ''avez'') VERB_AUX (lit ''have (Vous)'') [lit ''Vous''],
       createWord (r 7) (lit ''ont'') VERB_AUX (lit ''have (Ils/Elles)'') [lit ''Ils'', lit ''Elles''],
       createWord (r 8) (lit ''eu'') VERB_PP (lit ''had'') [],
       createWord (r 9) (lit ''suis'') VERB_AUX (lit ''am (Je)'') [lit ''Je''],
       createWord (r 10) (lit ''es'') VERB_AUX (lit ''are (Tu)'') [lit ''Tu''],
       createWord (r 11) (lit ''est'') VERB_AUX (lit ''is (Il/Elle)'') [lit ''Il'', lit ''Elle''],
       createWord (r 12) (lit ''sommes'') VERB_AUX (lit ''are (Nous)'') [lit ''Nous''],
       createWord (r 13) ([e_circ] @ lit ''tes'') VERB_AUX (lit ''are (Vous)'') [lit ''Vous''],
       createWord (r 14) (lit ''sont'') VERB_AUX (lit ''are (Ils/Elles)'') [lit ''Ils'', lit ''Elles''],
       createWord (r 15) ([e_acute, 116, e_acute]) VERB_PP (lit ''been'') [] ]"

section \<open>Verb forms (getVerbForms)\<close>

record VerbForms =
  vf_inf :: Word
  vf_pp :: "Word option"
  vf_conjugations :: "Word list"

text \<open>
  \<open>ra\<close> and \<open>rb\<close> are the ids drawn when the tables \<open>AUX_ALLER\<close> and
  \<open>AUX_AVOIR_ETRE\<close> were built, \<open>r\<close> the ids drawn during the call (five by
  \<open>generateErVerbs\<close>, then one for the past participle).
\<close>

definition getVerbForms :: "rand \<Rightarrow> rand \<Rightarrow> rand \<Rightarrow> Word \<Rightarrow> VerbForms" where
  "getVerbForms ra rb r rootVerb =
     (if word_text rootVerb = lit ''avoir'' then
        \<lparr> vf_inf = rootVerb,
          vf_pp = find (\<lambda>w. word_type w = VERB_PP \<and> word_text w = lit ''eu'') (AUX_AVOIR_ETRE rb),
          vf_conjugations =
            filter (\<lambda>w. word_type w = VERB_AUX \<and>
                       word_text w \<in> set [lit ''ai'', lit ''as'', lit ''a'', lit ''avons'', lit ''avez'', lit ''ont''])
              (AUX_AVOIR_ETRE rb) \<rparr>
      else if word_text rootVerb = [e_circ] @ lit ''tre'' then
        \<lparr> vf_inf = rootVerb,
          vf_pp = find (\<lambda>w. word_type w = VERB_PP \<and> word_text w = [e_acute, 116, e_acute]) (AUX_AVOIR_ETRE rb),
          vf_conjugations =
            filter (\<lambda>w. word_type w = VERB_AUX \<and>
                       word_text w \<in> set [lit ''suis'', lit ''es'', lit ''est'', lit ''sommes'',
                                           [e_circ] @ lit ''tes'', lit ''sont''])
              (AUX_AVOIR_ETRE rb) \<rparr>
      else if word_text rootVerb = lit ''aller'' then
        \<lparr> vf_inf = rootVerb,
          vf_pp = find (\<lambda>w. word_type w = VERB_PP) (AUX_ALLER ra),
          vf_conjugations = filter (\<lambda>w. word_type w = VERB_AUX) (AUX_ALLER ra) \<rparr>
      else if (endsWith (word_text rootVerb) (lit ''er'') \<or> endsWith (word_text rootVerb) (lit ''ir'')
               \<or> endsWith (word_text rootVerb) (lit ''re''))
              \<and> endsWith (word_text rootVerb) (lit ''er'') then
        \<lparr> vf_inf = rootVerb,
          vf_pp = Some (createWord (r 5) (sliceEnd (word_text rootVerb) 2 @ [e_acute]) VERB_PP
                          (lit ''Past Participle'') []),
          vf_conjugations =
            generateErVerbs r (word_text rootVerb)
              (replaceFirst (lit ''to '') [] (word_translation rootVerb)) \<rparr>
      else \<lparr> vf_inf = rootVerb, vf_pp = None, vf_conjugations = [] \<rparr>)"

section \<open>Gender and number variations (generateVariations)\<close>

datatype Gender = Masc | Fem

datatype Number = Sing | Plur

record AdjForms =
  adj_f :: jsstring
  adj_mpl :: jsstring
  adj_fpl :: jsstring

definition irregularAdjectives :: "(jsstring \<times> AdjForms) list" where
  "irregularAdjectives =
     [ (lit ''beau'', \<lparr> adj_f = lit ''belle'', adj_mpl = lit ''beaux'', adj_fpl = lit ''belles'' \<rparr>),
       (lit ''nouveau'',
          \<lparr> adj_f = lit ''nouvelle'', adj_mpl = lit ''nouveaux'', adj_fpl = lit ''nouvelles'' \<rparr>),
       (lit ''vieux'', \<lparr> adj_f = lit ''vieille'', adj_mpl = lit ''vieux'', adj_fpl = lit ''vieilles'' \<rparr>),
       (lit ''frais'',
          \<lparr> adj_f = lit ''fra'' @ [i_circ] @ lit ''che'', adj_mpl = lit ''frais'',
            adj_fpl = lit ''fra'' @ [i_circ] @ lit ''ches'' \<rparr>),
       (lit ''blanc'', \<lparr> adj_f = lit ''blanche'', adj_mpl = lit ''blancs'', adj_fpl = lit ''blanches'' \<rparr>),
       (lit ''heureux'',
          \<lparr> adj_f = lit ''heureuse'', adj_mpl = lit ''heureux'', adj_fpl = lit ''heureuses'' \<rparr>),
       (lit ''d'' @ [e_acute] @ lit ''licieux'',
          \<lparr> adj_f = lit ''d'' @ [e_acute] @ lit ''licieuse'', adj_mpl = lit ''d'' @ [e_acute] @ lit ''licieux'',
            adj_fpl = lit ''d'' @ [e_acute] @ lit ''licieuses'' \<rparr>),
       (lit ''dangereux'',
          \<lparr> adj_f = lit ''dangereuse'', adj_mpl = lit ''dangereux'', adj_fpl = lit ''dangereuses'' \<rparr>) ]"

text \<open>
  \<open>irregularAdjectives\<close> is a plain object literal, so \<open>irregularAdjectives[word.text]\<close>
  also finds the properties the object inherits from \<open>Object.prototype\<close>. These are truthy
  (functions, or the prototype itself) and have no \<open>f\<close>, \<open>mpl\<close> or \<open>fpl\<close>:
  reading one of the three forms from them gives \<open>undefined\<close>.
\<close>

definition objectPrototypeKeys :: "jsstring list" where
  "objectPrototypeKeys =
     [ lit ''constructor'', lit ''hasOwnProperty'', lit ''isPrototypeOf'', lit ''propertyIsEnumerable'',
       lit ''toLocaleString'', lit ''toString'', lit ''valueOf'', lit ''__proto__'',
       lit ''__defineGetter__'', lit ''__defineSetter__'', lit ''__lookupGetter__'',
       lit ''__lookupSetter__'' ]"

datatype Lookup = Own AdjForms | Inherited | Missing

definition lookupAdjective :: "jsstring \<Rightarrow> Lookup" where
  "lookupAdjective k =
     (case map_of irregularAdjectives k of
        Some forms \<Rightarrow> Own forms
      | None \<Rightarrow> if k \<in> set objectPrototypeKeys then Inherited else Missing)"

text \<open>
  The function returns an object; \<open>Inl UndefinedText\<close> stands for an object whose
  \<open>text\<close> is \<open>undefined\<close>, which is not a \<open>Word\<close>.
\<close>

datatype anomaly = UndefinedText

definition genderTag :: "Gender \<Rightarrow> jsstring" where
  "genderTag gender = (if gender = Fem then lit ''feminine'' else lit ''masculine'')"

definition numberTag :: "Number \<Rightarrow> jsstring" where
  "numberTag number = (if number = Plur then lit ''plural'' else lit ''singular'')"

text \<open>
  The noun branch in its two steps, the gender transformation (\<open>nounGender\<close>) and the
  plural transformation of its result (\<open>nounNumber\<close>), and the text computed by the
  adjective branch (\<open>None\<close> is \<open>undefined\<close>).
\<close>

definition nounGender :: "Word \<Rightarrow> Gender \<Rightarrow> jsstring" where
  "nounGender word gender =
     (let txt = word_text word;
          isFemTag = (tagsInclude word (lit ''f'') \<or> tagsInclude word (lit ''feminine''))
      in if gender = Fem \<and> \<not> isFemTag then
           (if txt = lit ''chat'' then lit ''chatte''
            else if txt = lit ''chien'' then lit ''chienne''
            else if txt = lit ''sorcier'' then lit ''sorci'' @ [e_grave] @ lit ''re''
            else if endsWith txt (lit ''er'') then sliceEnd txt 2 @ [e_grave] @ lit ''re''
            else if endsWith txt (lit ''f'') then sliceEnd txt 1 @ lit ''ve''
            else if endsWith txt (lit ''x'') then sliceEnd txt 1 @ lit ''se''
            else if \<not> endsWith txt (lit ''e'') then txt @ lit ''e''
            else txt)
         else txt)"

definition nounNumber :: "jsstring \<Rightarrow> Number \<Rightarrow> jsstring" where
  "nounNumber txt number =
     (if number = Plur then
        (if endsWith txt (lit ''s'') \<or> endsWith txt (lit ''x'') \<or> endsWith txt (lit ''z'') then txt
         else if endsWith txt (lit ''au'') \<or> endsWith txt (lit ''eu'') then txt @ lit ''x''
         else if endsWith txt (lit ''al'') then sliceEnd txt 2 @ lit ''aux''
         else txt @ lit ''s'')
      else txt)"

definition adjectiveText :: "Word \<Rightarrow> Gender \<Rightarrow> Number \<Rightarrow> jsstring option" where
  "adjectiveText word gender number =
     (case lookupAdjective (word_text word) of
        Own forms \<Rightarrow>
          (if gender = Fem \<and> number = Sing then Some (adj_f forms)
           else if gender = Masc \<and> number = Plur then Some (adj_mpl forms)
           else if gender = Fem \<and> number = Plur then Some (adj_fpl forms)
           else Some (word_text word))
      | Inherited \<Rightarrow>
          (if gender = Fem \<and> number = Sing then None
           else if gender = Masc \<and> number = Plur then None
           else if gender = Fem \<and> number = Plur then None
           else Some (word_text word))
      | Missing \<Rightarrow>
          (let t1 = (if gender = Fem then
                       (if \<not> endsWith (word_text word) (lit ''e'') then word_text word @ lit ''e''
                        else word_text word)
                     else word_text word)
           in if number = Plur then
                (if endsWith t1 (lit ''s'') \<or> endsWith t1 (lit ''x'') then Some t1
                 else if endsWith t1 (lit ''au'') then Some (t1 @ lit ''x'')
                 else Some (t1 @ lit ''s''))
              else Some t1))"

definition generateVariations :: "Word \<Rightarrow> Gender \<Rightarrow> Number \<Rightarrow> anomaly + Word" where
  "generateVariations word gender number =
     (if word_type word = NOUN then
        Inr (word\<lparr> word_text := nounNumber (nounGender word gender) number,
                   word_tags := Some [genderTag gender, numberTag number] \<rparr>)
      else if word_type word = ADJECTIVE then
        (case adjectiveText word gender number of
           None \<Rightarrow> Inl UndefinedText
         | Some txt \<Rightarrow>
             Inr (word\<lparr> word_text := txt,
                        word_tags := Some (tagsOrEmpty word @ [genderTag gender, numberTag number]) \<rparr>))
      else Inr word)"

section \<open>The string-level pass (applyFrenchElision)\<close>

text \<open>
  The two regular expressions have the same shape, \<open>\b(alternatives)\s+(second)\<close> with the
  flags \<open>g\<close> and \<open>i\<close>. \<open>isWordChar\<close> is \<open>\w\<close>, \<open>isWhiteSpace\<close> is \<open>\s\<close>, and
  \<open>canonicalize\<close> is the case folding of the \<open>i\<close> flag without the \<open>u\<close> flag (a code
  unit is replaced by its upper case; a non-ASCII unit never folds to an ASCII one), exact
  on Basic Latin and Latin-1 Supplement, where all letters of the two patterns lie.
\<close>

definition isWordChar :: "unit16 \<Rightarrow> bool" where
  "isWordChar c = ((48 \<le> c \<and> c \<le> 57) \<or> (65 \<le> c \<and> c \<le> 90) \<or> c = 95 \<or> (97 \<le> c \<and> c \<le> 122))"

definition isWhiteSpace :: "unit16 \<Rightarrow> bool" where
  "isWhiteSpace c =
     (c \<in> set [9, 10, 11, 12, 13, 32, 160, 5760, 8232, 8233, 8239, 8287, 12288, 65279]
      \<or> (8192 \<le> c \<and> c \<le> 8202))"

definition canonicalize :: "unit16 \<Rightarrow> unit16" where
  "canonicalize c =
     (if 97 \<le> c \<and> c \<le> 122 then c - 32
      else if 224 \<le> c \<and> c \<le> 254 \<and> c \<noteq> 247 then c - 32
      else if c = 255 then 376
      else if c = 181 then 924
      else c)"

text \<open>\<open>\b\<close> at a position: exactly one of the units before and after it is a word
  character (\<open>prev\<close> is \<open>None\<close> at the start of the input).\<close>

definition wordBoundary :: "unit16 option \<Rightarrow> jsstring \<Rightarrow> bool" where
  "wordBoundary prev s =
     ((case prev of None \<Rightarrow> False | Some p \<Rightarrow> isWordChar p)
      \<noteq> (case s of [] \<Rightarrow> False | c # _ \<Rightarrow> isWordChar c))"

definition ciStartsWith :: "jsstring \<Rightarrow> jsstring \<Rightarrow> bool" where
  "ciStartsWith s t =
     (length t \<le> length s \<and> map canonicalize (take (length t) s) = map canonicalize t)"

fun firstMatch :: "('a \<Rightarrow> 'b option) \<Rightarrow> 'a list \<Rightarrow> 'b option" where
  "firstMatch f [] = None"
| "firstMatch f (x # xs) = (case f x of Some y \<Rightarrow> Some y | None \<Rightarrow> firstMatch f xs)"

text \<open>
  A match at the current position, as the captures \<open>(p1, whitespace, p2)\<close>: the
  alternatives are tried in order, \<open>\s+\<close> takes all the white space that follows (with
  less, the next unit would be white space, which neither second part accepts), and
  \<open>second\<close> matches the second group at the start of what is left.
\<close>

type_synonym captures = "jsstring \<times> jsstring \<times> jsstring"

definition matchAt ::
  "jsstring list \<Rightarrow> (jsstring \<Rightarrow> jsstring option) \<Rightarrow> unit16 option \<Rightarrow> jsstring \<Rightarrow> captures option" where
  "matchAt alts second prev s =
     (if wordBoundary prev s then
        firstMatch
          (\<lambda>t. if ciStartsWith s t then
                 (let r = drop (length t) s; ws = takeWhile isWhiteSpace r
                  in if ws = [] then None
                     else (case second (dropWhile isWhiteSpace r) of
                             None \<Rightarrow> None
                           | Some p2 \<Rightarrow> Some (take (length t) s, ws, p2)))
               else None)
          alts
      else None)"

fun matched :: "captures \<Rightarrow> jsstring" where
  "matched (p1, ws, p2) = p1 @ ws @ p2"

lemma firstMatch_Some:
  "firstMatch f xs = Some y \<Longrightarrow> \<exists>x \<in> set xs. f x = Some y"
  by (induction xs) (auto split: option.splits)

lemma matchAt_nonempty:
  assumes "matchAt alts second prev s = Some m"
  shows "matched m \<noteq> []"
proof -
  from assms obtain t where
    "(if ciStartsWith s t then
        (let r = drop (length t) s; ws = takeWhile isWhiteSpace r
         in if ws = [] then None
            else (case second (dropWhile isWhiteSpace r) of
                    None \<Rightarrow> None
                  | Some p2 \<Rightarrow> Some (take (length t) s, ws, p2)))
      else None) = Some m"
    unfolding matchAt_def by (auto split: if_splits dest: firstMatch_Some)
  then show ?thesis
    by (auto simp: Let_def split: if_splits option.splits)
qed

text \<open>
  \<open>String.prototype.replace\<close> with a global regular expression and a callback: where the
  expression matches, the callback's result replaces the matched text and the search goes
  on after it; elsewhere the unit is copied. Boundaries are decided on the input string.
\<close>

function replaceAll ::
  "jsstring list \<Rightarrow> (jsstring \<Rightarrow> jsstring option) \<Rightarrow> (captures \<Rightarrow> jsstring)
     \<Rightarrow> unit16 option \<Rightarrow> jsstring \<Rightarrow> jsstring" where
  "replaceAll alts second fn prev [] = []"
| "replaceAll alts second fn prev (c # cs) =
     (case matchAt alts second prev (c # cs) of
        None \<Rightarrow> c # replaceAll alts second fn (Some c) cs
      | Some m \<Rightarrow>
          fn m @ replaceAll alts second fn (Some (last (matched m)))
                   (drop (length (matched m)) (c # cs)))"
  by pat_completeness auto
termination
proof (relation "measure (\<lambda>(alts, second, fn, prev, s). length s)")
  fix alts :: "jsstring list" and second :: "jsstring \<Rightarrow> jsstring option"
    and fn :: "captures \<Rightarrow> jsstring" and prev :: "unit16 option" and c :: unit16
    and cs :: jsstring and m :: captures
  assume "matchAt alts second prev (c # cs) = Some m"
  then have "matched m \<noteq> []" by (rule matchAt_nonempty)
  then show "((alts, second, fn, Some (last (matched m)), drop (length (matched m)) (c # cs)),
              (alts, second, fn, prev, c # cs))
             \<in> measure (\<lambda>(alts, second, fn, prev, s). length s)"
    by (cases "matched m") auto
qed auto

definition stringTriggers :: "jsstring list" where
  "stringTriggers =
     [lit ''je'', lit ''me'', lit ''te'', lit ''se'', lit ''le'', lit ''la'', lit ''de'', lit ''ne'',
      lit ''que'', lit ''ce'']"

definition vowelClass :: "unit16 list" where
  "vowelClass =
     [97, 101, 105, 111, 117, 121, e_acute, a_grave, e_grave, u_grave, a_circ, e_circ, i_circ,
      o_circ, u_circ, 104]"

definition secondVowel :: "jsstring \<Rightarrow> jsstring option" where
  "secondVowel r =
     (case r of
        [] \<Rightarrow> None
      | c # _ \<Rightarrow> if canonicalize c \<in> set (map canonicalize vowelClass) then Some [c] else None)"

definition secondIl :: "jsstring \<Rightarrow> jsstring option" where
  "secondIl r = (if ciStartsWith r (lit ''il'') then Some (take 2 r) else None)"

fun elideCallback :: "captures \<Rightarrow> jsstring" where
  "elideCallback (p1, ws, p2) =
     (let word = toLowerCase p1; nextChar = toLowerCase p2
      in if word = lit ''ce'' then
           (if nextChar = lit ''e'' \<or> nextChar = [e_acute] then sliceEnd p1 1 @ [apostrophe] @ p2
            else p1 @ ws @ p2)
         else sliceEnd p1 1 @ [apostrophe] @ p2)"

fun siCallback :: "captures \<Rightarrow> jsstring" where
  "siCallback (p1, ws, p2) = lit ''s'' @ [apostrophe] @ p2"

definition applyFrenchElision :: "jsstring \<Rightarrow> jsstring" where
  "applyFrenchElision sentence =
     replaceAll [lit ''si''] secondIl siCallback None
       (replaceAll stringTriggers secondVowel elideCallback None sentence)"

section \<open>The slot-level engine (shouldElide, findElisionCandidate)\<close>

definition elisionTriggers :: "jsstring list" where
  "elisionTriggers =
     [lit ''je'', lit ''me'', lit ''te'', lit ''se'', lit ''le'', lit ''la'', lit ''de'', lit ''ne'',
      lit ''que'', lit ''jusque'', lit ''si'', lit ''ce'']"

definition vowels :: "jsstring list" where
  "vowels =
     [lit ''a'', lit ''e'', lit ''i'', lit ''o'', lit ''u'', lit ''y'', lit ''h'', [e_acute], [e_grave],
      [e_circ]]"

definition shouldElide :: "SentenceSlot \<Rightarrow> SentenceSlot \<Rightarrow> bool" where
  "shouldElide s1 s2 =
     (case slot_value s1 of
        None \<Rightarrow> False
      | Some v1 \<Rightarrow>
          (case slot_value s2 of
             None \<Rightarrow> False
           | Some v2 \<Rightarrow>
               (let w1 = toLowerCase (word_text v1); w2 = toLowerCase (word_text v2)
                in if w1 \<notin> set elisionTriggers then False
                   else if charAt0 w2 \<notin> set vowels then False
                   else if w1 = lit ''si'' \<and> \<not> startsWith w2 (lit ''il'') then False
                   else if w1 = lit ''ce'' \<and> \<not> startsWith w2 (lit ''est'')
                           \<and> \<not> startsWith w2 ([e_acute] @ lit ''t'') then False
                   else True)))"

record ElisionCandidate =
  ec_index :: nat
  ec_mergedSlot :: SentenceSlot

text \<open>
  The merge of a pair that \<open>shouldElide\<close> accepts; \<open>the\<close> is the non-null assertion
  \<open>value!\<close> of the source, used only after \<open>shouldElide\<close> has found both values.
\<close>

definition mergeSlots :: "SentenceSlot \<Rightarrow> SentenceSlot \<Rightarrow> SentenceSlot" where
  "mergeSlots current next =
     (let v1 = the (slot_value current); v2 = the (slot_value next);
          w1 = word_text v1; w2 = word_text v2;
          prefix = (if toLowerCase w1 = lit ''si'' then sliceEnd w1 1 else sliceEnd w1 1);
          mergedText = prefix @ [apostrophe] @ w2;
          mergedWord =
            \<lparr> word_id = word_id v1 @ lit ''+'' @ word_id v2,
              word_text = mergedText,
              word_type = word_type v2,
              word_translation = word_translation v1 @ lit '' + '' @ word_translation v2,
              word_tags = Some (tagsOrEmpty v1 @ tagsOrEmpty v2) \<rparr>
      in \<lparr> slot_id = slot_id current, slot_type = slot_type next, slot_value = Some mergedWord,
           slot_placeholder = slot_placeholder next, slot_fixed = None \<rparr>)"

text \<open>The loop \<open>for (i = 0; i < slots.length - 1; i++)\<close>, as a scan of the slots from
  index \<open>i\<close> on.\<close>

fun scanFrom :: "nat \<Rightarrow> SentenceSlot list \<Rightarrow> ElisionCandidate option" where
  "scanFrom i (current # next # rest) =
     (if shouldElide current next
      then Some \<lparr> ec_index = i, ec_mergedSlot = mergeSlots current next \<rparr>
      else scanFrom (Suc i) (next # rest))"
| "scanFrom i [current] = None"
| "scanFrom i [] = None"

definition findElisionCandidate :: "SentenceSlot list \<Rightarrow> ElisionCandidate option" where
  "findElisionCandidate slots = scanFrom 0 slots"

section \<open>The merge loop and the submitted sentence (GameScreen)\<close>

text \<open>\<open>xs.splice(i, 2, m)\<close> on a copy of \<open>xs\<close>.\<close>

definition splice2 :: "nat \<Rightarrow> SentenceSlot \<Rightarrow> SentenceSlot list \<Rightarrow> SentenceSlot list" where
  "splice2 i m xs = take i xs @ [m] @ drop (i + 2) xs"

text \<open>The state update of the merge effect: the candidate is applied if a fresh scan of the
  current slots finds a candidate at the same index.\<close>

definition applyMerge :: "ElisionCandidate \<Rightarrow> SentenceSlot list \<Rightarrow> SentenceSlot list" where
  "applyMerge candidate prevSlots =
     (case findElisionCandidate prevSlots of
        None \<Rightarrow> prevSlots
      | Some freshCandidate \<Rightarrow>
          if ec_index freshCandidate = ec_index candidate
          then splice2 (ec_index candidate) (ec_mergedSlot candidate) prevSlots
          else prevSlots)"

lemma scanFrom_index:
  "scanFrom i slots = Some c \<Longrightarrow> i \<le> ec_index c \<and> ec_index c + 2 \<le> i + length slots"
  by (induction i slots rule: scanFrom.induct) (auto split: if_splits)

lemma applyMerge_shorter:
  assumes "findElisionCandidate slots = Some c"
  shows "length (applyMerge c slots) < length slots"
proof -
  from assms have "ec_index c + 2 \<le> length slots"
    unfolding findElisionCandidate_def by (auto dest: scanFrom_index)
  with assms show ?thesis
    by (simp add: applyMerge_def splice2_def)
qed

text \<open>
  The effect runs again after every change of the slots, so without other events the slots
  go through one merge after the other until no candidate is left.
\<close>

function mergeLoop :: "SentenceSlot list \<Rightarrow> SentenceSlot list" where
  "mergeLoop slots =
     (case findElisionCandidate slots of
        None \<Rightarrow> slots
      | Some candidate \<Rightarrow> mergeLoop (applyMerge candidate slots))"
  by pat_completeness auto
termination
  by (relation "measure length") (auto dest: applyMerge_shorter)

declare mergeLoop.simps [simp del]

text \<open>The sentence \<open>handleCheckSentence\<close> submits: the texts of the slots (nothing
  for an empty slot) joined by single spaces, then the string-level pass. The handler
  returns before this when there are no slots.\<close>

definition sentenceStr :: "SentenceSlot list \<Rightarrow> jsstring" where
  "sentenceStr slots =
     applyFrenchElision
       (join (lit '' '') (map (\<lambda>s. case slot_value s of None \<Rightarrow> [] | Some w \<Rightarrow> word_text w) slots))"

section \<open>Specification-side definitions and sample inputs\<close>

text \<open>The first-person-plural form and the singular stem of a regular verb, as the
  specification words them, from the stem (the infinitive without its final \<open>er\<close>).\<close>

definition nousForm_spec :: "jsstring \<Rightarrow> jsstring" where
  "nousForm_spec stem =
     (if stem \<noteq> [] \<and> last stem = 103 then stem @ lit ''eons''
      else if stem \<noteq> [] \<and> last stem = 99 then butlast stem @ [c_cedilla] @ lit ''ons''
      else stem @ lit ''ons'')"

definition singularStem_spec :: "jsstring \<Rightarrow> jsstring" where
  "singularStem_spec stem =
     (if stem \<noteq> [] \<and> last stem = 121 then butlast stem @ lit ''i'' else stem)"

text \<open>Inputs for the concrete evaluations: no random id parts, and words as the game
  creates them.\<close>

definition ids0 :: rand where
  "ids0 n = []"

definition dormir :: Word where
  "dormir = createWord [] (lit ''dormir'') VERB_INF (lit ''to sleep'') []"

definition nettoyer :: Word where
  "nettoyer = createWord [] (lit ''nettoyer'') VERB_INF (lit ''to clean'') []"

definition avoirInf :: Word where
  "avoirInf = createWord [] (lit ''avoir'') VERB_INF (lit ''to have (Aux)'') []"

definition etreInf :: Word where
  "etreInf = createWord [] ([e_circ] @ lit ''tre'') VERB_INF (lit ''to be (Aux)'') []"

definition allerInf :: Word where
  "allerInf = createWord [] (lit ''aller'') VERB_INF (lit ''to go (Aux)'') []"

definition allerCapital :: Word where
  "allerCapital = createWord [] (lit ''Aller'') VERB_INF (lit ''to go'') []"

text \<open>
  The condition for a contraction as the specification words it: both slots hold a word,
  the first word in lower case is one of the twelve triggers, the second in lower case
  begins with one of the ten vowel-class characters, and the two special rules for
  \<open>si\<close> and \<open>ce\<close> hold.
\<close>

definition vowelUnits_spec :: "unit16 set" where
  "vowelUnits_spec = {97, 101, 105, 111, 117, 121, 104, e_acute, e_grave, e_circ}"

definition qualifies_spec :: "SentenceSlot \<Rightarrow> SentenceSlot \<Rightarrow> bool" where
  "qualifies_spec a b =
     (case slot_value a of
        None \<Rightarrow> False
      | Some wa \<Rightarrow>
          (case slot_value b of
             None \<Rightarrow> False
           | Some wb \<Rightarrow>
               toLowerCase (word_text wa) \<in>
                 {lit ''je'', lit ''me'', lit ''te'', lit ''se'', lit ''le'', lit ''la'', lit ''de'',
                  lit ''ne'', lit ''que'', lit ''jusque'', lit ''si'', lit ''ce''}
               \<and> toLowerCase (word_text wb) \<noteq> []
               \<and> hd (toLowerCase (word_text wb)) \<in> vowelUnits_spec
               \<and> (toLowerCase (word_text wa) = lit ''si'' \<longrightarrow>
                    startsWith (toLowerCase (word_text wb)) (lit ''il''))
               \<and> (toLowerCase (word_text wa) = lit ''ce'' \<longrightarrow>
                    startsWith (toLowerCase (word_text wb)) (lit ''est'')
                    \<or> startsWith (toLowerCase (word_text wb)) ([e_acute] @ lit ''t''))))"

text \<open>The text of the merged word of the candidate found, if there is one.\<close>

definition candidateText :: "SentenceSlot list \<Rightarrow> jsstring option" where
  "candidateText slots =
     (case findElisionCandidate slots of
        None \<Rightarrow> None
      | Some c \<Rightarrow> map_option word_text (slot_value (ec_mergedSlot c)))"

text \<open>A slot as the game adds it for a chosen word (the slot's id is left empty).\<close>

definition slotFor :: "Word \<Rightarrow> SentenceSlot" where
  "slotFor word =
     \<lparr> slot_id = [], slot_type = word_type word, slot_value = Some word,
       slot_placeholder = posValue (word_type word), slot_fixed = None \<rparr>"

definition wordJe :: Word where
  "wordJe = createWord [] (lit ''Je'') SUBJECT (lit ''I'') []"

definition wordAi :: Word where
  "wordAi = createWord [] (lit ''ai'') VERB_AUX (lit ''have (Je)'') [lit ''Je'']"

definition wordUn :: Word where
  "wordUn = createWord [] (lit ''un'') ARTICLE (lit ''a (m)'') []"

definition wordChat :: Word where
  "wordChat = createWord [] (lit ''chat'') NOUN (lit ''cat'') [lit ''m'', lit ''mutable'']"

definition wordLa :: Word where
  "wordLa = createWord [] (lit ''la'') ARTICLE (lit ''the (f)'') []"

definition wordPomme :: Word where
  "wordPomme = createWord [] (lit ''pomme'') NOUN (lit ''apple'') [lit ''f'']"

definition wordDe :: Word where
  "wordDe = createWord [] (lit ''de'') PREPOSITION (lit ''of/from/about'') []"

definition wordAujourdhui :: Word where
  "wordAujourdhui =
     createWord [] (lit ''aujourd'' @ [apostrophe] @ lit ''hui'') ADVERB (lit ''today'') []"

definition wordJusque :: Word where
  "wordJusque = createWord [] (lit ''jusque'') PREPOSITION (lit ''until'') []"

definition wordIci :: Word where
  "wordIci = createWord [] (lit ''ici'') ADVERB (lit ''here'') []"

definition wordEst :: Word where
  "wordEst = createWord [] (lit ''est'') VERB_AUX (lit ''is (Il/Elle)'') [lit ''Il'', lit ''Elle'']"

definition wordSi :: Word where
  "wordSi = createWord [] (lit ''si'') CONNECTOR (lit ''if'') []"

definition wordIl :: Word where
  "wordIl = createWord [] (lit ''Il'') SUBJECT (lit ''He'') []"

definition wordLe :: Word where
  "wordLe = createWord [] (lit ''le'') ARTICLE (lit ''the (m)'') []"

definition wordIle :: Word where
  "wordIle = createWord [] ([i_circ] @ lit ''le'') NOUN (lit ''island'') [lit ''f'']"

definition leIle :: "SentenceSlot list" where
  "leIle = [slotFor wordLe, slotFor wordIle]"

definition jeAiUnChat :: "SentenceSlot list" where
  "jeAiUnChat = [slotFor wordJe, slotFor wordAi, slotFor wordUn, slotFor wordChat]"

definition laPommeJeAi :: "SentenceSlot list" where
  "laPommeJeAi = [slotFor wordLa, slotFor wordPomme, slotFor wordJe, slotFor wordAi]"

definition deAujourdhui :: "SentenceSlot list" where
  "deAujourdhui = [slotFor wordDe, slotFor wordAujourdhui]"


definition laPomme :: "SentenceSlot list" where
  "laPomme = [slotFor wordLa, slotFor wordPomme]"


definition beforeEst :: "jsstring \<Rightarrow> SentenceSlot list" where
  "beforeEst t = [slotFor (createWord [] t ARTICLE [] []), slotFor wordEst]"

definition candJeAi :: ElisionCandidate where
  "candJeAi = \<lparr> ec_index = 0, ec_mergedSlot = mergeSlots (slotFor wordJe) (slotFor wordAi) \<rparr>"

definition candJeAiAt2 :: ElisionCandidate where
  "candJeAiAt2 = \<lparr> ec_index = 2, ec_mergedSlot = mergeSlots (slotFor wordJe) (slotFor wordAi) \<rparr>"

text \<open>
  The two steps of the noun rule and the regular adjective rule as the specification words
  them. An ending is tested on the last characters of the text and removed with
  \<open>butlast\<close>.
\<close>

definition endsIn1_spec :: "jsstring \<Rightarrow> unit16 \<Rightarrow> bool" where
  "endsIn1_spec s c = (s \<noteq> [] \<and> last s = c)"

definition endsIn2_spec :: "jsstring \<Rightarrow> unit16 \<Rightarrow> unit16 \<Rightarrow> bool" where
  "endsIn2_spec s a b = (2 \<le> length s \<and> last (butlast s) = a \<and> last s = b)"

definition irregularFeminine_spec :: "(jsstring \<times> jsstring) list" where
  "irregularFeminine_spec =
     [ (lit ''chat'', lit ''chatte''), (lit ''chien'', lit ''chienne''),
       (lit ''sorcier'', lit ''sorci'' @ [e_grave] @ lit ''re'') ]"

definition feminineNoun_spec :: "jsstring \<Rightarrow> jsstring" where
  "feminineNoun_spec txt =
     (case map_of irregularFeminine_spec txt of
        Some fem \<Rightarrow> fem
      | None \<Rightarrow>
          if endsIn2_spec txt 101 114 then butlast (butlast txt) @ [e_grave] @ lit ''re''
          else if endsIn1_spec txt 102 then butlast txt @ lit ''ve''
          else if endsIn1_spec txt 120 then butlast txt @ lit ''se''
          else if endsIn1_spec txt 101 then txt
          else txt @ lit ''e'')"

definition pluralNoun_spec :: "jsstring \<Rightarrow> jsstring" where
  "pluralNoun_spec txt =
     (if endsIn1_spec txt 115 \<or> endsIn1_spec txt 120 \<or> endsIn1_spec txt 122 then txt
      else if endsIn2_spec txt 97 117 \<or> endsIn2_spec txt 101 117 then txt @ lit ''x''
      else if endsIn2_spec txt 97 108 then butlast (butlast txt) @ lit ''aux''
      else txt @ lit ''s'')"

definition taggedFeminine_spec :: "Word \<Rightarrow> bool" where
  "taggedFeminine_spec w =
     (case word_tags w of
        None \<Rightarrow> False
      | Some ts \<Rightarrow> lit ''f'' \<in> set ts \<or> lit ''feminine'' \<in> set ts)"

definition feminineAdjective_spec :: "jsstring \<Rightarrow> jsstring" where
  "feminineAdjective_spec txt = (if endsIn1_spec txt 101 then txt else txt @ lit ''e'')"

definition pluralAdjective_spec :: "jsstring \<Rightarrow> jsstring" where
  "pluralAdjective_spec txt =
     (if endsIn1_spec txt 115 \<or> endsIn1_spec txt 120 then txt
      else if endsIn2_spec txt 97 117 then txt @ lit ''x''
      else txt @ lit ''s'')"

definition wordCheval :: Word where
  "wordCheval = createWord [] (lit ''cheval'') NOUN (lit ''horse'') [lit ''m'']"

definition wordPays :: Word where
  "wordPays = createWord [] (lit ''pays'') NOUN (lit ''country'') [lit ''m'']"

definition wordGrand :: Word where
  "wordGrand = createWord [] (lit ''grand'') ADJECTIVE (lit ''big'') []"

definition wordGrandMascSing :: Word where
  "wordGrandMascSing =
     wordGrand\<lparr> word_tags := Some [lit ''masculine'', lit ''singular''] \<rparr>"

definition wordBeau :: Word where
  "wordBeau = createWord [] (lit ''beau'') ADJECTIVE (lit ''beautiful'') []"

definition wordConstructor :: Word where
  "wordConstructor = createWord [] (lit ''constructor'') ADJECTIVE (lit ''builder'') []"

section \<open>Facts about the string operations\<close>

lemma lit_Nil: "lit [] = []"
  by (simp add: lit_def)

lemma lit_Cons: "lit (c # cs) = of_char c # lit cs"
  by (simp add: lit_def)

lemma endsWith_iff: "endsWith s p = (\<exists>t. s = t @ p)"
proof
  assume "endsWith s p"
  then have "s = take (length s - length p) s @ p"
    unfolding endsWith_def by (metis append_take_drop_id)
  then show "\<exists>t. s = t @ p" ..
next
  assume "\<exists>t. s = t @ p"
  then show "endsWith s p" by (auto simp: endsWith_def)
qed

lemma endsWith_append: "endsWith (t @ p) p"
  by (auto simp: endsWith_iff)

lemma endsWith_too_short: "length s < length p \<Longrightarrow> \<not> endsWith s p"
  by (simp add: endsWith_def)

lemma sliceEnd_append: "length p = n \<Longrightarrow> sliceEnd (t @ p) n = t"
  by (simp add: sliceEnd_def)

lemma sliceEnd_1: "sliceEnd s (Suc 0) = butlast s"
  by (simp add: sliceEnd_def butlast_conv_take)

lemma endsWith_longer: "endsWith (t @ p) (c # p) = (t \<noteq> [] \<and> last t = c)"
proof (cases t rule: rev_cases)
  case Nil
  then show ?thesis by (simp add: endsWith_def)
next
  case (snoc ys y)
  then show ?thesis by (auto simp: endsWith_iff)
qed

lemma endsWith_er3: "endsWith (t @ [a, b]) [c, a, b] = (t \<noteq> [] \<and> last t = c)"
  using endsWith_longer [of t "[a, b]" c] by simp

section \<open>Verb forms\<close>

lemma generateErVerbs_texts:
  "map word_text (generateErVerbs r (stem @ lit ''er'') tb) =
     [singularStem_spec stem @ lit ''e'', singularStem_spec stem @ lit ''es'', nousForm_spec stem,
      stem @ lit ''ez'', singularStem_spec stem @ lit ''ent'']"
  by (simp add: generateErVerbs_def createWord_def sliceEnd_append sliceEnd_1 endsWith_er3
      endsWith_too_short nousForm_spec_def singularStem_spec_def lit_Cons lit_Nil Let_def)

lemma generateErVerbs_tags:
  "map word_tags (generateErVerbs r root tb) =
     [Some [lit ''Je'', lit ''Il'', lit ''Elle''], Some [lit ''Tu''], Some [lit ''Nous''],
      Some [lit ''Vous''], Some [lit ''Ils'', lit ''Elles'']]"
  by (simp add: generateErVerbs_def createWord_def Let_def)

lemma getVerbForms_er:
  assumes "endsWith (word_text w) (lit ''er'')"
    and "word_text w \<noteq> lit ''avoir''" and "word_text w \<noteq> [e_circ] @ lit ''tre''"
    and "word_text w \<noteq> lit ''aller''"
  shows "getVerbForms ra rb r w =
    \<lparr> vf_inf = w,
      vf_pp = Some (createWord (r 5) (sliceEnd (word_text w) 2 @ [e_acute]) VERB_PP
                      (lit ''Past Participle'') []),
      vf_conjugations = generateErVerbs r (word_text w)
                          (replaceFirst (lit ''to '') [] (word_translation w)) \<rparr>"
  using assms by (simp add: getVerbForms_def)

lemma avoir_forms:
  assumes "word_text w = lit ''avoir''"
  shows "map word_text (vf_conjugations (getVerbForms ra rb r w)) =
           [lit ''ai'', lit ''as'', lit ''a'', lit ''avons'', lit ''avez'', lit ''ont'']"
    and "set (vf_conjugations (getVerbForms ra rb r w)) \<subseteq> set (AUX_AVOIR_ETRE rb)"
    and "\<exists>p \<in> set (AUX_AVOIR_ETRE rb).
           vf_pp (getVerbForms ra rb r w) = Some p \<and> word_text p = lit ''eu''"
  using assms
  by (simp_all add: getVerbForms_def AUX_AVOIR_ETRE_def createWord_def unit_defs)

lemma etre_forms:
  assumes "word_text w = [e_circ] @ lit ''tre''"
  shows "map word_text (vf_conjugations (getVerbForms ra rb r w)) =
           [lit ''suis'', lit ''es'', lit ''est'', lit ''sommes'', [e_circ] @ lit ''tes'',
            lit ''sont'']"
    and "set (vf_conjugations (getVerbForms ra rb r w)) \<subseteq> set (AUX_AVOIR_ETRE rb)"
    and "\<exists>p \<in> set (AUX_AVOIR_ETRE rb).
           vf_pp (getVerbForms ra rb r w) = Some p \<and> word_text p = [e_acute, 116, e_acute]"
  using assms
  by (simp_all add: getVerbForms_def AUX_AVOIR_ETRE_def createWord_def unit_defs)

lemma aller_forms:
  assumes "word_text w = lit ''aller''"
  shows "map word_text (vf_conjugations (getVerbForms ra rb r w)) =
           [lit ''vais'', lit ''vas'', lit ''va'', lit ''allons'', lit ''allez'', lit ''vont'']"
    and "set (vf_conjugations (getVerbForms ra rb r w)) \<subseteq> set (AUX_ALLER ra)"
    and "\<exists>p \<in> set (AUX_ALLER ra).
           vf_pp (getVerbForms ra rb r w) = Some p \<and> word_text p = lit ''all'' @ [e_acute]"
  using assms
  by (simp_all add: getVerbForms_def AUX_ALLER_def createWord_def unit_defs)

section \<open>The slot-level engine\<close>

lemmas slot_eval =
  findElisionCandidate_def shouldElide_def slotFor_def createWord_def toLowerCase_def
  lowerUnit_def elisionTriggers_def vowels_def charAt0_def startsWith_def unit_defs
  mergeSlots_def sliceEnd_def tagsOrEmpty_def Let_def splice2_def applyMerge_def
  candidateText_def beforeEst_def
  wordJe_def wordAi_def wordUn_def wordChat_def wordLa_def wordPomme_def wordDe_def
  wordAujourdhui_def wordJusque_def wordIci_def wordEst_def wordSi_def wordIl_def

lemmas string_eval =
  applyFrenchElision_def matchAt_def wordBoundary_def isWordChar_def isWhiteSpace_def
  canonicalize_def ciStartsWith_def stringTriggers_def secondVowel_def secondIl_def
  vowelClass_def toLowerCase_def lowerUnit_def sliceEnd_def unit_defs Let_def

lemma charAt0_vowels: "(charAt0 w \<in> set vowels) = (w \<noteq> [] \<and> hd w \<in> vowelUnits_spec)"
  by (cases w) (auto simp: charAt0_def vowels_def vowelUnits_spec_def unit_defs)

lemma shouldElide_qualifies: "shouldElide a b = qualifies_spec a b"
  unfolding shouldElide_def qualifies_spec_def
  by (auto simp: Let_def charAt0_vowels elisionTriggers_def split: option.splits)

lemma shouldElide_values:
  "shouldElide a b \<Longrightarrow> \<exists>w1 w2. slot_value a = Some w1 \<and> slot_value b = Some w2"
  by (auto simp: shouldElide_def split: option.splits)

lemma shouldElide_trigger:
  "shouldElide a b \<Longrightarrow> slot_value a = Some w1 \<Longrightarrow>
     toLowerCase (word_text w1) \<in> set elisionTriggers"
  by (auto simp: shouldElide_def Let_def split: option.splits if_splits)

lemma mergeSlots_text:
  assumes "slot_value a = Some w1" and "slot_value b = Some w2"
  shows "map_option word_text (slot_value (mergeSlots a b)) =
           Some (butlast (word_text w1) @ [apostrophe] @ word_text w2)"
  using assms by (simp add: mergeSlots_def Let_def sliceEnd_def butlast_conv_take)

lemma scanFrom_None:
  "(scanFrom i slots = None) =
     (\<forall>k. k + 1 < length slots \<longrightarrow> \<not> shouldElide (slots ! k) (slots ! (k + 1)))"
proof (induction i slots rule: scanFrom.induct)
  case (1 i current nxt rest)
  show ?case
  proof (cases "shouldElide current nxt")
    case True
    then show ?thesis by (auto intro: exI [of _ 0])
  next
    case False
    have "(\<forall>k. k + 1 < length (current # nxt # rest) \<longrightarrow>
             \<not> shouldElide ((current # nxt # rest) ! k) ((current # nxt # rest) ! (k + 1)))
          = (\<forall>k. k + 1 < length (nxt # rest) \<longrightarrow>
             \<not> shouldElide ((nxt # rest) ! k) ((nxt # rest) ! (k + 1)))"
      (is "?L = ?R")
    proof
      assume l: ?L
      show ?R
      proof (intro allI impI)
        fix k assume "k + 1 < length (nxt # rest)"
        with l [rule_format, of "Suc k"]
        show "\<not> shouldElide ((nxt # rest) ! k) ((nxt # rest) ! (k + 1))"
          by simp
      qed
    next
      assume r: ?R
      show ?L
      proof (intro allI impI)
        fix k assume k: "k + 1 < length (current # nxt # rest)"
        show "\<not> shouldElide ((current # nxt # rest) ! k) ((current # nxt # rest) ! (k + 1))"
        proof (cases k)
          case 0
          with False show ?thesis by simp
        next
          case (Suc j)
          with k r [rule_format, of j] show ?thesis by simp
        qed
      qed
    qed
    with False 1 show ?thesis by simp
  qed
qed simp_all

lemma scanFrom_Some:
  "scanFrom i slots = Some c \<Longrightarrow>
     \<exists>k. ec_index c = i + k \<and> k + 1 < length slots
       \<and> shouldElide (slots ! k) (slots ! (k + 1))
       \<and> (\<forall>j < k. \<not> shouldElide (slots ! j) (slots ! (j + 1)))
       \<and> ec_mergedSlot c = mergeSlots (slots ! k) (slots ! (k + 1))"
proof (induction i slots rule: scanFrom.induct)
  case (1 i current nxt rest)
  show ?case
  proof (cases "shouldElide current nxt")
    case True
    with 1(2) have "ec_index c = i" "ec_mergedSlot c = mergeSlots current nxt" by auto
    with True show ?thesis by (intro exI [of _ 0]) simp
  next
    case False
    with 1 obtain k where k: "ec_index c = Suc i + k" "k + 1 < length (nxt # rest)"
      "shouldElide ((nxt # rest) ! k) ((nxt # rest) ! (k + 1))"
      "\<forall>j < k. \<not> shouldElide ((nxt # rest) ! j) ((nxt # rest) ! (j + 1))"
      "ec_mergedSlot c = mergeSlots ((nxt # rest) ! k) ((nxt # rest) ! (k + 1))"
      by auto
    have "\<forall>j < Suc k.
            \<not> shouldElide ((current # nxt # rest) ! j) ((current # nxt # rest) ! (j + 1))"
    proof (intro allI impI)
      fix j assume "j < Suc k"
      then show "\<not> shouldElide ((current # nxt # rest) ! j) ((current # nxt # rest) ! (j + 1))"
        using False k(4) by (cases j) auto
    qed
    with k show ?thesis by (intro exI [of _ "Suc k"]) simp
  qed
qed simp_all

lemma candidate_pair:
  assumes "findElisionCandidate slots = Some c"
  shows "ec_index c + 1 < length slots"
    and "shouldElide (slots ! ec_index c) (slots ! (ec_index c + 1))"
    and "\<forall>j < ec_index c. \<not> shouldElide (slots ! j) (slots ! (j + 1))"
    and "ec_mergedSlot c = mergeSlots (slots ! ec_index c) (slots ! (ec_index c + 1))"
  using assms unfolding findElisionCandidate_def by (auto dest: scanFrom_Some)

lemma lower_apostrophe:
  "apostrophe \<in> set s \<Longrightarrow> apostrophe \<in> set (toLowerCase s)"
  by (induction s) (auto simp: toLowerCase_def lowerUnit_def apostrophe_def)

lemma trigger_no_apostrophe:
  assumes "toLowerCase s \<in> set elisionTriggers"
  shows "apostrophe \<notin> set s"
proof
  assume "apostrophe \<in> set s"
  then have "apostrophe \<in> set (toLowerCase s)" by (rule lower_apostrophe)
  with assms show False
    by (auto simp: elisionTriggers_def unit_defs)
qed

lemma count_butlast_zero: "x \<notin> set s \<Longrightarrow> count_list (butlast s) x = 0"
  by (meson count_list_0_iff in_set_butlastD)

lemma find_jeAiUnChat: "findElisionCandidate jeAiUnChat = Some candJeAi"
  by (simp add: jeAiUnChat_def candJeAi_def slot_eval)

lemma find_laPommeJeAi: "findElisionCandidate laPommeJeAi = Some candJeAiAt2"
  by (simp add: laPommeJeAi_def candJeAiAt2_def slot_eval)

lemma find_laPomme: "findElisionCandidate laPomme = None"
  by (simp add: laPomme_def slot_eval)

lemma candidateText_jeAiUnChat:
  "candidateText jeAiUnChat = Some (lit ''J'' @ [apostrophe] @ lit ''ai'')"
  by (simp add: jeAiUnChat_def slot_eval)

lemma sentence_jeAiUnChat:
  "sentenceStr (mergeLoop jeAiUnChat) = lit ''J'' @ [apostrophe] @ lit ''ai un chat''"
proof -
  have "map (\<lambda>s. case slot_value s of None \<Rightarrow> [] | Some w \<Rightarrow> word_text w) (mergeLoop jeAiUnChat)
          = [lit ''J'' @ [apostrophe] @ lit ''ai'', lit ''un'', lit ''chat'']"
    by (simp add: jeAiUnChat_def mergeLoop.simps slot_eval)
  then show ?thesis
    unfolding sentenceStr_def by (simp add: string_eval)
qed

text \<open>
  The two passes also differ in the second word they accept, whatever the trigger: the
  string-level class has six accented vowels that the slot-level list lacks, so le followed
  by a word in i-circumflex is contracted by the string-level pass only.
\<close>

lemma second_word_divergence:
  "findElisionCandidate leIle = None"
  "sentenceStr leIle = lit ''l'' @ [apostrophe] @ [i_circ] @ lit ''le''"
  by (simp_all add: leIle_def wordLe_def wordIle_def sentenceStr_def slot_eval string_eval)

section \<open>Gender and number variations\<close>

lemma endsWith_1: "endsWith s [c] = endsIn1_spec s c"
proof (cases s rule: rev_cases)
  case Nil
  then show ?thesis by (simp add: endsWith_def endsIn1_spec_def)
next
  case (snoc ys y)
  then show ?thesis by (auto simp: endsWith_def endsIn1_spec_def)
qed

lemma endsWith_2: "endsWith s [a, b] = endsIn2_spec s a b"
proof (cases s rule: rev_cases)
  case Nil
  then show ?thesis by (simp add: endsWith_def endsIn2_spec_def)
next
  case outer: (snoc ys y)
  show ?thesis
  proof (cases ys rule: rev_cases)
    case Nil
    with outer show ?thesis by (simp add: endsWith_def endsIn2_spec_def)
  next
    case (snoc zs z)
    with outer show ?thesis by (auto simp: endsWith_def endsIn2_spec_def butlast_append)
  qed
qed

lemma sliceEnd_2: "sliceEnd s 2 = butlast (butlast s)"
  by (simp add: sliceEnd_def butlast_conv_take numeral_2_eq_2)

lemma tagsInclude_feminine:
  "(tagsInclude w (lit ''f'') \<or> tagsInclude w (lit ''feminine'')) = taggedFeminine_spec w"
  by (simp add: tagsInclude_def taggedFeminine_spec_def split: option.splits)

lemma nounGender_spec:
  "nounGender w g =
     (if g = Fem \<and> \<not> taggedFeminine_spec w then feminineNoun_spec (word_text w) else word_text w)"
  unfolding nounGender_def tagsInclude_feminine
  by (simp add: feminineNoun_spec_def irregularFeminine_spec_def Let_def
      lit_def endsWith_1 endsWith_2 sliceEnd_1 sliceEnd_2)

lemma nounNumber_spec:
  "nounNumber txt n = (if n = Plur then pluralNoun_spec txt else txt)"
  by (simp add: nounNumber_def pluralNoun_spec_def lit_def endsWith_1 endsWith_2 sliceEnd_2)

lemmas variation_eval =
  generateVariations_def adjectiveText_def lookupAdjective_def irregularAdjectives_def
  objectPrototypeKeys_def nounGender_def nounNumber_def genderTag_def numberTag_def
  tagsInclude_def tagsOrEmpty_def endsWith_def sliceEnd_def createWord_def unit_defs Let_def

text \<open>
  The adjective rule on the inputs where the lookup behaves like a table: a text in the
  table gets the stored form for the gender and number asked (the text itself for
  masculine singular), and a text that is neither in the table nor the name of an inherited
  property gets the feminine rule, then the plural rule.
\<close>

lemma adjective_irregular:
  assumes "word_type w = ADJECTIVE" and "map_of irregularAdjectives (word_text w) = Some forms"
  shows "\<exists>w'. generateVariations w g n = Inr w'
     \<and> word_text w' =
         (case (g, n) of
            (Fem, Sing) \<Rightarrow> adj_f forms
          | (Masc, Plur) \<Rightarrow> adj_mpl forms
          | (Fem, Plur) \<Rightarrow> adj_fpl forms
          | (Masc, Sing) \<Rightarrow> word_text w)"
  using assms
  by (cases g; cases n) (simp_all add: generateVariations_def adjectiveText_def lookupAdjective_def)

lemma adjective_regular:
  assumes "word_type w = ADJECTIVE" and "lookupAdjective (word_text w) = Missing"
  shows "\<exists>w'. generateVariations w g n = Inr w'
     \<and> word_text w' =
         (let t1 = (if g = Fem then feminineAdjective_spec (word_text w) else word_text w)
          in if n = Plur then pluralAdjective_spec t1 else t1)"
  using assms
  by (simp add: generateVariations_def adjectiveText_def Let_def feminineAdjective_spec_def
      pluralAdjective_spec_def lit_def endsWith_1 endsWith_2)

lemma beau_feminine_plural:
  "map_sum id word_text (generateVariations wordBeau Fem Plur) = Inr (lit ''belles'')"
  by (simp add: wordBeau_def variation_eval)

lemma chat_feminine:
  "generateVariations wordChat Fem Sing =
     Inr (wordChat\<lparr> word_text := lit ''chatte'',
                     word_tags := Some [lit ''feminine'', lit ''singular''] \<rparr>)"
  by (simp add: wordChat_def variation_eval)

lemma grand_twice:
  "generateVariations wordGrand Masc Sing = Inr wordGrandMascSing"
  "generateVariations wordGrandMascSing Fem Plur =
     Inr (wordGrandMascSing\<lparr> word_text := lit ''grandes'',
            word_tags := Some [lit ''masculine'', lit ''singular'', lit ''feminine'', lit ''plural''] \<rparr>)"
  by (simp_all add: wordGrand_def wordGrandMascSing_def variation_eval)

section \<open>The claims\<close>

text \<open>
  Claim C2, as amended. The three irregular verbs are recognised by exact comparison of the
  word's text with \<open>avoir\<close>, \<open>etre\<close> (with its circumflex) and \<open>aller\<close>; the
  comparison is case-sensitive. For such a word \<open>getVerbForms\<close> returns the verb's six
  forms and its past participle (\<open>eu\<close>, \<open>ete\<close> with its accents, \<open>alle\<close> with its
  accent), all of them entries of the fixed tables and none generated.
\<close>

theorem irregular_verbs_fixed_paradigm:
  "(word_text w = lit ''avoir'' \<longrightarrow>
      map word_text (vf_conjugations (getVerbForms ra rb r w)) =
        [lit ''ai'', lit ''as'', lit ''a'', lit ''avons'', lit ''avez'', lit ''ont'']
      \<and> set (vf_conjugations (getVerbForms ra rb r w)) \<subseteq> set (AUX_AVOIR_ETRE rb)
      \<and> (\<exists>p \<in> set (AUX_AVOIR_ETRE rb).
            vf_pp (getVerbForms ra rb r w) = Some p \<and> word_text p = lit ''eu''))
   \<and> (word_text w = [e_circ] @ lit ''tre'' \<longrightarrow>
      map word_text (vf_conjugations (getVerbForms ra rb r w)) =
        [lit ''suis'', lit ''es'', lit ''est'', lit ''sommes'', [e_circ] @ lit ''tes'', lit ''sont'']
      \<and> set (vf_conjugations (getVerbForms ra rb r w)) \<subseteq> set (AUX_AVOIR_ETRE rb)
      \<and> (\<exists>p \<in> set (AUX_AVOIR_ETRE rb).
            vf_pp (getVerbForms ra rb r w) = Some p \<and> word_text p = [e_acute, 116, e_acute]))
   \<and> (word_text w = lit ''aller'' \<longrightarrow>
      map word_text (vf_conjugations (getVerbForms ra rb r w)) =
        [lit ''vais'', lit ''vas'', lit ''va'', lit ''allons'', lit ''allez'', lit ''vont'']
      \<and> set (vf_conjugations (getVerbForms ra rb r w)) \<subseteq> set (AUX_ALLER ra)
      \<and> (\<exists>p \<in> set (AUX_ALLER ra).
            vf_pp (getVerbForms ra rb r w) = Some p \<and> word_text p = lit ''all'' @ [e_acute]))"
  by (simp add: avoir_forms etre_forms aller_forms)

theorem irregular_verbs_fixed_paradigm_witness:
  "word_text avoirInf = lit ''avoir''
   \<and> map word_text (vf_conjugations (getVerbForms ids0 ids0 ids0 avoirInf)) =
       [lit ''ai'', lit ''as'', lit ''a'', lit ''avons'', lit ''avez'', lit ''ont'']
   \<and> word_text etreInf = [e_circ] @ lit ''tre''
   \<and> map word_text (vf_conjugations (getVerbForms ids0 ids0 ids0 etreInf)) =
       [lit ''suis'', lit ''es'', lit ''est'', lit ''sommes'', [e_circ] @ lit ''tes'', lit ''sont'']
   \<and> word_text allerInf = lit ''aller''
   \<and> map word_text (vf_conjugations (getVerbForms ids0 ids0 ids0 allerInf)) =
       [lit ''vais'', lit ''vas'', lit ''va'', lit ''allons'', lit ''allez'', lit ''vont'']"
proof -
  have a: "word_text avoirInf = lit ''avoir''" by (simp add: avoirInf_def createWord_def)
  have e: "word_text etreInf = [e_circ] @ lit ''tre''" by (simp add: etreInf_def createWord_def)
  have l: "word_text allerInf = lit ''aller''" by (simp add: allerInf_def createWord_def)
  have ca: "map word_text (vf_conjugations (getVerbForms ids0 ids0 ids0 avoirInf)) =
       [lit ''ai'', lit ''as'', lit ''a'', lit ''avons'', lit ''avez'', lit ''ont'']"
    using irregular_verbs_fixed_paradigm [of avoirInf ids0 ids0 ids0] a by (elim conjE) simp
  have ce: "map word_text (vf_conjugations (getVerbForms ids0 ids0 ids0 etreInf)) =
       [lit ''suis'', lit ''es'', lit ''est'', lit ''sommes'', [e_circ] @ lit ''tes'', lit ''sont'']"
    using irregular_verbs_fixed_paradigm [of etreInf ids0 ids0 ids0] e by (elim conjE) simp
  have cl: "map word_text (vf_conjugations (getVerbForms ids0 ids0 ids0 allerInf)) =
       [lit ''vais'', lit ''vas'', lit ''va'', lit ''allons'', lit ''allez'', lit ''vont'']"
    using irregular_verbs_fixed_paradigm [of allerInf ids0 ids0 ids0] l by (elim conjE) simp
  show ?thesis by (intro conjI a e l ca ce cl)
qed

text \<open>
  Claim C2, as stated, fails: \<open>Aller\<close> matches \<open>aller\<close> when case is ignored, but
  \<open>getVerbForms\<close> compares exactly, so the word falls through to the generative rule for
  verbs in \<open>-er\<close> and gets five generated forms and a generated past participle.
\<close>

theorem irregular_verbs_case_counterexample:
  "toLowerCase (word_text allerCapital) = lit ''aller''
   \<and> map word_text (vf_conjugations (getVerbForms ids0 ids0 ids0 allerCapital)) =
       [lit ''Alle'', lit ''Alles'', lit ''Allons'', lit ''Allez'', lit ''Allent'']
   \<and> map_option word_text (vf_pp (getVerbForms ids0 ids0 ids0 allerCapital)) =
       Some (lit ''All'' @ [e_acute])"
  by (simp add: allerCapital_def createWord_def getVerbForms_def generateErVerbs_def
      toLowerCase_def lowerUnit_def endsWith_def sliceEnd_def unit_defs)

text \<open>
  Claim C6. A word whose text is none of the three irregular infinitives and does not end
  in \<open>er\<close> gets the empty paradigm: no forms, no past participle, and the word itself as
  the infinitive. The function returns this value; it has no failing branch.
\<close>

theorem unsupported_verb_empty_paradigm:
  assumes "word_text w \<noteq> lit ''avoir''" and "word_text w \<noteq> [e_circ] @ lit ''tre''"
    and "word_text w \<noteq> lit ''aller''" and "\<not> endsWith (word_text w) (lit ''er'')"
  shows "getVerbForms ra rb r w = \<lparr> vf_inf = w, vf_pp = None, vf_conjugations = [] \<rparr>"
  using assms by (simp add: getVerbForms_def)

theorem unsupported_verb_empty_paradigm_witness:
  "word_text dormir \<noteq> lit ''avoir'' \<and> word_text dormir \<noteq> [e_circ] @ lit ''tre''
   \<and> word_text dormir \<noteq> lit ''aller'' \<and> \<not> endsWith (word_text dormir) (lit ''er'')
   \<and> getVerbForms ids0 ids0 ids0 dormir = \<lparr> vf_inf = dormir, vf_pp = None, vf_conjugations = [] \<rparr>"
proof -
  have h: "word_text dormir \<noteq> lit ''avoir''" "word_text dormir \<noteq> [e_circ] @ lit ''tre''"
    "word_text dormir \<noteq> lit ''aller''" "\<not> endsWith (word_text dormir) (lit ''er'')"
    by (simp_all add: dormir_def createWord_def endsWith_def unit_defs)
  show ?thesis by (intro conjI h unsupported_verb_empty_paradigm [OF h])
qed

text \<open>
  Claim C7. For a word whose text is \<open>stem\<close> followed by \<open>er\<close> and is none of the three
  irregular infinitives, \<open>getVerbForms\<close> returns exactly five forms: the singular stem
  with \<open>e\<close>, with \<open>es\<close>, the first-person-plural form (\<open>eons\<close> after a stem in
  \<open>g\<close>, the final \<open>c\<close> of the stem replaced by c-cedilla before \<open>ons\<close>, else
  \<open>ons\<close>), the stem with \<open>ez\<close>, and the singular stem with \<open>ent\<close>, where the
  singular stem turns a final \<open>y\<close> of the stem into \<open>i\<close>. The forms carry the tags of
  the persons they serve, and the past participle is the stem with e-acute.
\<close>

theorem regular_er_paradigm:
  assumes "word_text w = stem @ lit ''er''"
    and "word_text w \<noteq> lit ''avoir''" and "word_text w \<noteq> [e_circ] @ lit ''tre''"
    and "word_text w \<noteq> lit ''aller''"
  shows "length (vf_conjugations (getVerbForms ra rb r w)) = 5
    \<and> map word_text (vf_conjugations (getVerbForms ra rb r w)) =
        [singularStem_spec stem @ lit ''e'', singularStem_spec stem @ lit ''es'',
         nousForm_spec stem, stem @ lit ''ez'', singularStem_spec stem @ lit ''ent'']
    \<and> map word_tags (vf_conjugations (getVerbForms ra rb r w)) =
        [Some [lit ''Je'', lit ''Il'', lit ''Elle''], Some [lit ''Tu''], Some [lit ''Nous''],
         Some [lit ''Vous''], Some [lit ''Ils'', lit ''Elles'']]
    \<and> map_option word_text (vf_pp (getVerbForms ra rb r w)) = Some (stem @ [e_acute])
    \<and> vf_inf (getVerbForms ra rb r w) = w"
proof -
  have e: "endsWith (word_text w) (lit ''er'')"
    using assms(1) by (simp add: endsWith_append)
  note g = getVerbForms_er [OF e assms(2-4), of ra rb r]
  have t: "map word_text (vf_conjugations (getVerbForms ra rb r w)) =
        [singularStem_spec stem @ lit ''e'', singularStem_spec stem @ lit ''es'',
         nousForm_spec stem, stem @ lit ''ez'', singularStem_spec stem @ lit ''ent'']"
    by (simp only: g VerbForms.simps assms(1) generateErVerbs_texts)
  have n: "length (vf_conjugations (getVerbForms ra rb r w)) = 5"
    using arg_cong [OF t, of length] by simp
  have tg: "map word_tags (vf_conjugations (getVerbForms ra rb r w)) =
        [Some [lit ''Je'', lit ''Il'', lit ''Elle''], Some [lit ''Tu''], Some [lit ''Nous''],
         Some [lit ''Vous''], Some [lit ''Ils'', lit ''Elles'']]"
    by (simp only: g VerbForms.simps generateErVerbs_tags)
  have p: "map_option word_text (vf_pp (getVerbForms ra rb r w)) = Some (stem @ [e_acute])"
    by (simp add: g assms(1) createWord_def sliceEnd_append lit_Cons lit_Nil)
  have i: "vf_inf (getVerbForms ra rb r w) = w" by (simp add: g)
  show ?thesis by (intro conjI n t tg p i)
qed

theorem regular_er_paradigm_witness:
  "word_text nettoyer = lit ''nettoy'' @ lit ''er''
   \<and> map word_text (vf_conjugations (getVerbForms ids0 ids0 ids0 nettoyer)) =
       [lit ''nettoie'', lit ''nettoies'', lit ''nettoyons'', lit ''nettoyez'', lit ''nettoient'']
   \<and> map_option word_text (vf_pp (getVerbForms ids0 ids0 ids0 nettoyer)) =
       Some (lit ''nettoy'' @ [e_acute])"
proof -
  have h: "word_text nettoyer = lit ''nettoy'' @ lit ''er''"
    "word_text nettoyer \<noteq> lit ''avoir''" "word_text nettoyer \<noteq> [e_circ] @ lit ''tre''"
    "word_text nettoyer \<noteq> lit ''aller''"
    by (simp_all add: nettoyer_def createWord_def unit_defs)
  have s: "singularStem_spec (lit ''nettoy'') = lit ''nettoi''"
    "nousForm_spec (lit ''nettoy'') = lit ''nettoyons''"
    by (simp_all add: singularStem_spec_def nousForm_spec_def unit_defs)
  from regular_er_paradigm [OF h, of ids0 ids0 ids0] h(1) s show ?thesis
    by (simp add: lit_def)
qed

text \<open>
  Claim C5. \<open>findElisionCandidate\<close> returns nothing exactly when no adjacent pair
  qualifies; and when it returns a candidate, the candidate's index is that of a qualifying
  pair, no pair to its left qualifies, and the merged slot is the merge of that pair.
\<close>

theorem first_qualifying_pair:
  "(findElisionCandidate slots = None \<longleftrightarrow>
      (\<forall>i. i + 1 < length slots \<longrightarrow> \<not> qualifies_spec (slots ! i) (slots ! (i + 1))))
   \<and> (\<forall>c. findElisionCandidate slots = Some c \<longrightarrow>
         ec_index c + 1 < length slots
         \<and> qualifies_spec (slots ! ec_index c) (slots ! (ec_index c + 1))
         \<and> (\<forall>j < ec_index c. \<not> qualifies_spec (slots ! j) (slots ! (j + 1)))
         \<and> ec_mergedSlot c = mergeSlots (slots ! ec_index c) (slots ! (ec_index c + 1)))"
proof (intro conjI allI impI)
  show "findElisionCandidate slots = None \<longleftrightarrow>
      (\<forall>i. i + 1 < length slots \<longrightarrow> \<not> qualifies_spec (slots ! i) (slots ! (i + 1)))"
    unfolding findElisionCandidate_def scanFrom_None shouldElide_qualifies ..
next
  fix c assume f: "findElisionCandidate slots = Some c"
  note k = candidate_pair [OF f]
  from k(1) show "ec_index c + 1 < length slots" .
  from k(2) show "qualifies_spec (slots ! ec_index c) (slots ! (ec_index c + 1))"
    by (simp add: shouldElide_qualifies)
  from k(4) show "ec_mergedSlot c = mergeSlots (slots ! ec_index c) (slots ! (ec_index c + 1))" .
  fix j assume "j < ec_index c"
  with k(3) show "\<not> qualifies_spec (slots ! j) (slots ! (j + 1))"
    by (simp add: shouldElide_qualifies)
qed

theorem first_qualifying_pair_witness:
  "findElisionCandidate laPommeJeAi = Some candJeAiAt2
   \<and> ec_index candJeAiAt2 = 2
   \<and> qualifies_spec (laPommeJeAi ! 2) (laPommeJeAi ! 3)
   \<and> \<not> qualifies_spec (laPommeJeAi ! 0) (laPommeJeAi ! 1)
   \<and> \<not> qualifies_spec (laPommeJeAi ! 1) (laPommeJeAi ! 2)
   \<and> findElisionCandidate laPomme = None
   \<and> \<not> qualifies_spec (laPomme ! 0) (laPomme ! 1)"
proof -
  have i: "ec_index candJeAiAt2 = 2" by (simp add: candJeAiAt2_def)
  from first_qualifying_pair [of laPommeJeAi] find_laPommeJeAi
  have q: "qualifies_spec (laPommeJeAi ! ec_index candJeAiAt2) (laPommeJeAi ! (ec_index candJeAiAt2 + 1))"
    and n: "\<forall>j < ec_index candJeAiAt2. \<not> qualifies_spec (laPommeJeAi ! j) (laPommeJeAi ! (j + 1))"
    by blast+
  from q have q2: "qualifies_spec (laPommeJeAi ! 2) (laPommeJeAi ! 3)"
    by (simp add: i)
  from n [rule_format, of 0] have n0: "\<not> qualifies_spec (laPommeJeAi ! 0) (laPommeJeAi ! 1)"
    by (simp add: i)
  from n [rule_format, of 1] have n1: "\<not> qualifies_spec (laPommeJeAi ! 1) (laPommeJeAi ! 2)"
    by (simp add: i numeral_2_eq_2)
  from first_qualifying_pair [of laPomme] find_laPomme
  have "\<forall>i. i + 1 < length laPomme \<longrightarrow> \<not> qualifies_spec (laPomme ! i) (laPomme ! (i + 1))"
    by blast
  from this [rule_format, of 0] have m: "\<not> qualifies_spec (laPomme ! 0) (laPomme ! 1)"
    by (simp add: laPomme_def)
  show ?thesis by (intro conjI find_laPommeJeAi i q2 n0 n1 find_laPomme m)
qed

text \<open>
  Claim C1, as amended. The merged text of a candidate is the first word's text as it is
  written, case included, without its last character, then an apostrophe, then the second
  word's text as it is written. For the slots Je, ai, un, chat the merge loop followed by
  the assembly of the sentence gives \<open>J'ai un chat\<close>, with the capital of \<open>Je\<close> kept.
\<close>

theorem merged_text_keeps_case:
  "(\<forall>c. findElisionCandidate slots = Some c \<longrightarrow>
      (\<exists>w1 w2. slot_value (slots ! ec_index c) = Some w1
         \<and> slot_value (slots ! (ec_index c + 1)) = Some w2
         \<and> map_option word_text (slot_value (ec_mergedSlot c)) =
             Some (butlast (word_text w1) @ [apostrophe] @ word_text w2)))
   \<and> sentenceStr (mergeLoop jeAiUnChat) = lit ''J'' @ [apostrophe] @ lit ''ai un chat''"
proof (intro conjI allI impI)
  fix c assume f: "findElisionCandidate slots = Some c"
  note k = candidate_pair [OF f]
  from shouldElide_values [OF k(2)] obtain w1 w2 where
    w: "slot_value (slots ! ec_index c) = Some w1" "slot_value (slots ! (ec_index c + 1)) = Some w2"
    by blast
  from mergeSlots_text [OF w] k(4)
  have "map_option word_text (slot_value (ec_mergedSlot c)) =
          Some (butlast (word_text w1) @ [apostrophe] @ word_text w2)"
    by simp
  with w show "\<exists>w1 w2. slot_value (slots ! ec_index c) = Some w1
         \<and> slot_value (slots ! (ec_index c + 1)) = Some w2
         \<and> map_option word_text (slot_value (ec_mergedSlot c)) =
             Some (butlast (word_text w1) @ [apostrophe] @ word_text w2)"
    by blast
next
  show "sentenceStr (mergeLoop jeAiUnChat) = lit ''J'' @ [apostrophe] @ lit ''ai un chat''"
    by (rule sentence_jeAiUnChat)
qed

theorem merged_text_keeps_case_witness:
  "findElisionCandidate jeAiUnChat = Some candJeAi
   \<and> map_option word_text (slot_value (ec_mergedSlot candJeAi)) =
       Some (butlast (word_text wordJe) @ [apostrophe] @ word_text wordAi)"
proof -
  from merged_text_keeps_case [of jeAiUnChat] find_jeAiUnChat
  obtain w1 w2 where w: "slot_value (jeAiUnChat ! ec_index candJeAi) = Some w1"
    "slot_value (jeAiUnChat ! (ec_index candJeAi + 1)) = Some w2"
    "map_option word_text (slot_value (ec_mergedSlot candJeAi)) =
       Some (butlast (word_text w1) @ [apostrophe] @ word_text w2)"
    by blast
  from w(1) have "w1 = wordJe" by (simp add: candJeAi_def jeAiUnChat_def slotFor_def)
  moreover from w(2) have "w2 = wordAi" by (simp add: candJeAi_def jeAiUnChat_def slotFor_def)
  ultimately show ?thesis using w(3) find_jeAiUnChat by simp
qed

text \<open>
  Claim C1, as stated, fails: for Je, ai the merged text is \<open>J'ai\<close>, which is not the
  lower-case form of \<open>Je\<close> without its last character followed by \<open>'ai\<close>, and the
  assembled sentence is not \<open>j'ai un chat\<close>.
\<close>

theorem merged_text_lowercase_counterexample:
  "candidateText jeAiUnChat = Some (lit ''J'' @ [apostrophe] @ lit ''ai'')
   \<and> candidateText jeAiUnChat \<noteq>
       Some (butlast (toLowerCase (word_text wordJe)) @ [apostrophe] @ word_text wordAi)
   \<and> sentenceStr (mergeLoop jeAiUnChat) \<noteq> lit ''j'' @ [apostrophe] @ lit ''ai un chat''"
proof -
  have "lit ''J'' @ [apostrophe] @ lit ''ai'' \<noteq>
          butlast (toLowerCase (word_text wordJe)) @ [apostrophe] @ word_text wordAi"
    by (simp add: wordJe_def wordAi_def createWord_def toLowerCase_def lowerUnit_def unit_defs)
  moreover have "lit ''J'' @ [apostrophe] @ lit ''ai un chat'' \<noteq> lit ''j'' @ [apostrophe] @ lit ''ai un chat''"
    by (simp add: unit_defs)
  ultimately show ?thesis
    by (simp add: candidateText_jeAiUnChat sentence_jeAiUnChat)
qed

text \<open>
  Claim C10, as amended. The merged text of a candidate contains exactly one apostrophe
  more than the second word's text; it contains exactly one when the second word's text
  contains none.
\<close>

theorem merged_text_apostrophes:
  "\<forall>c. findElisionCandidate slots = Some c \<longrightarrow>
     (\<exists>w2 m. slot_value (slots ! (ec_index c + 1)) = Some w2
        \<and> slot_value (ec_mergedSlot c) = Some m
        \<and> count_list (word_text m) apostrophe = 1 + count_list (word_text w2) apostrophe
        \<and> (apostrophe \<notin> set (word_text w2) \<longrightarrow> count_list (word_text m) apostrophe = 1))"
proof (intro allI impI)
  fix c assume f: "findElisionCandidate slots = Some c"
  note k = candidate_pair [OF f]
  from shouldElide_values [OF k(2)] obtain w1 w2 where
    w: "slot_value (slots ! ec_index c) = Some w1" "slot_value (slots ! (ec_index c + 1)) = Some w2"
    by blast
  from mergeSlots_text [OF w] k(4) obtain m where
    m: "slot_value (ec_mergedSlot c) = Some m"
      "word_text m = butlast (word_text w1) @ [apostrophe] @ word_text w2"
    by auto
  from shouldElide_trigger [OF k(2) w(1)] have "apostrophe \<notin> set (word_text w1)"
    by (rule trigger_no_apostrophe)
  then have "count_list (butlast (word_text w1)) apostrophe = 0"
    by (rule count_butlast_zero)
  with m(2) have n: "count_list (word_text m) apostrophe = 1 + count_list (word_text w2) apostrophe"
    by simp
  then have "apostrophe \<notin> set (word_text w2) \<longrightarrow> count_list (word_text m) apostrophe = 1"
    by (simp add: count_list_0_iff)
  with w(2) m(1) n
  show "\<exists>w2 m. slot_value (slots ! (ec_index c + 1)) = Some w2
        \<and> slot_value (ec_mergedSlot c) = Some m
        \<and> count_list (word_text m) apostrophe = 1 + count_list (word_text w2) apostrophe
        \<and> (apostrophe \<notin> set (word_text w2) \<longrightarrow> count_list (word_text m) apostrophe = 1)"
    by blast
qed

theorem merged_text_apostrophes_witness:
  "findElisionCandidate jeAiUnChat = Some candJeAi
   \<and> apostrophe \<notin> set (word_text wordAi)
   \<and> (\<exists>m. slot_value (ec_mergedSlot candJeAi) = Some m \<and> count_list (word_text m) apostrophe = 1)"
proof -
  from merged_text_apostrophes [of jeAiUnChat] find_jeAiUnChat
  obtain w2 m where w: "slot_value (jeAiUnChat ! (ec_index candJeAi + 1)) = Some w2"
    "slot_value (ec_mergedSlot candJeAi) = Some m"
    "apostrophe \<notin> set (word_text w2) \<longrightarrow> count_list (word_text m) apostrophe = 1"
    by blast
  from w(1) have e: "w2 = wordAi" by (simp add: candJeAi_def jeAiUnChat_def slotFor_def)
  have a: "apostrophe \<notin> set (word_text wordAi)"
    by (simp add: wordAi_def createWord_def unit_defs)
  with w(3) e have "count_list (word_text m) apostrophe = 1" by simp
  with w(2) a find_jeAiUnChat show ?thesis by blast
qed

text \<open>
  Claim C10, as stated, fails: for de followed by aujourd'hui the merged text is
  \<open>d'aujourd'hui\<close>, which contains two apostrophes.
\<close>

theorem merged_text_two_apostrophes_counterexample:
  "candidateText deAujourdhui =
     Some (lit ''d'' @ [apostrophe] @ lit ''aujourd'' @ [apostrophe] @ lit ''hui'')
   \<and> count_list (lit ''d'' @ [apostrophe] @ lit ''aujourd'' @ [apostrophe] @ lit ''hui'') apostrophe = 2"
  by (simp add: deAujourdhui_def slot_eval)


text \<open>
  Claim C8. For a noun the gender step comes first: when the feminine is asked and the word
  is not tagged feminine, the irregular lookup, else \<open>er\<close> to e-grave \<open>re\<close>, else
  \<open>f\<close> to \<open>ve\<close>, else \<open>x\<close> to \<open>se\<close>, else an \<open>e\<close> appended unless the text ends
  in \<open>e\<close>. The plural step works on its result \<open>t1\<close>: unchanged after \<open>s\<close>, \<open>x\<close>
  or \<open>z\<close>, an \<open>x\<close> appended after \<open>au\<close> or \<open>eu\<close>, \<open>al\<close> to \<open>aux\<close>, else an
  \<open>s\<close> appended. In particular the text that ends in \<open>s\<close>, \<open>x\<close> or \<open>z\<close> is
  returned as it is.
\<close>

theorem noun_gender_then_plural:
  assumes "word_type w = NOUN"
    and "t1 = (if g = Fem \<and> \<not> taggedFeminine_spec w then feminineNoun_spec (word_text w)
               else word_text w)"
  shows "\<exists>w'. generateVariations w g n = Inr w'
     \<and> word_text w' = (if n = Plur then pluralNoun_spec t1 else t1)
     \<and> (endsIn1_spec t1 115 \<or> endsIn1_spec t1 120 \<or> endsIn1_spec t1 122 \<longrightarrow> word_text w' = t1)"
  using assms
  by (simp add: generateVariations_def nounGender_spec nounNumber_spec pluralNoun_spec_def)

theorem noun_gender_then_plural_witness:
  "word_type wordChat = NOUN
   \<and> (\<exists>w'. generateVariations wordChat Fem Plur = Inr w' \<and> word_text w' = lit ''chattes'')
   \<and> word_type wordCheval = NOUN
   \<and> (\<exists>w'. generateVariations wordCheval Masc Plur = Inr w' \<and> word_text w' = lit ''chevaux'')
   \<and> word_type wordPays = NOUN
   \<and> (\<exists>w'. generateVariations wordPays Masc Plur = Inr w' \<and> word_text w' = lit ''pays'')"
proof -
  have t: "word_type wordChat = NOUN" "word_type wordCheval = NOUN" "word_type wordPays = NOUN"
    by (simp_all add: wordChat_def wordCheval_def wordPays_def createWord_def)
  have a: "(if Fem = Fem \<and> \<not> taggedFeminine_spec wordChat then feminineNoun_spec (word_text wordChat)
            else word_text wordChat) = lit ''chatte''"
    by (simp add: wordChat_def createWord_def taggedFeminine_spec_def feminineNoun_spec_def
        irregularFeminine_spec_def unit_defs)
  have b: "(if Masc = Fem \<and> \<not> taggedFeminine_spec wordCheval
            then feminineNoun_spec (word_text wordCheval) else word_text wordCheval) = lit ''cheval''"
    by (simp add: wordCheval_def createWord_def)
  have c: "(if Masc = Fem \<and> \<not> taggedFeminine_spec wordPays
            then feminineNoun_spec (word_text wordPays) else word_text wordPays) = lit ''pays''"
    by (simp add: wordPays_def createWord_def)
  have p: "pluralNoun_spec (lit ''chatte'') = lit ''chattes''"
    "pluralNoun_spec (lit ''cheval'') = lit ''chevaux''" "pluralNoun_spec (lit ''pays'') = lit ''pays''"
    by (simp_all add: pluralNoun_spec_def endsIn1_spec_def endsIn2_spec_def unit_defs)
  from noun_gender_then_plural [OF t(1) a [symmetric], of Plur] p(1)
  have 1: "\<exists>w'. generateVariations wordChat Fem Plur = Inr w' \<and> word_text w' = lit ''chattes''"
    by auto
  from noun_gender_then_plural [OF t(2) b [symmetric], of Plur] p(2)
  have 2: "\<exists>w'. generateVariations wordCheval Masc Plur = Inr w' \<and> word_text w' = lit ''chevaux''"
    by auto
  from noun_gender_then_plural [OF t(3) c [symmetric], of Plur] p(3)
  have 3: "\<exists>w'. generateVariations wordPays Masc Plur = Inr w' \<and> word_text w' = lit ''pays''"
    by auto
  show ?thesis by (intro conjI t 1 2 3)
qed

text \<open>
  Claim C4, as amended. For a noun the returned word's tags are exactly the gender tag and
  the number tag: all the tags the word had are replaced. For an adjective the returned
  word keeps every tag it had, gender and number tags included, and the two new tags are
  appended. The translation is unchanged in both cases.
\<close>

theorem tags_after_variation:
  "(word_type w = NOUN \<longrightarrow>
      (\<exists>w'. generateVariations w g n = Inr w'
         \<and> word_tags w' = Some [if g = Fem then lit ''feminine'' else lit ''masculine'',
                                if n = Plur then lit ''plural'' else lit ''singular'']
         \<and> word_translation w' = word_translation w))
   \<and> (word_type w = ADJECTIVE \<longrightarrow>
      (\<forall>w'. generateVariations w g n = Inr w' \<longrightarrow>
         word_tags w' = Some (tagsOrEmpty w @ [if g = Fem then lit ''feminine'' else lit ''masculine'',
                                               if n = Plur then lit ''plural'' else lit ''singular''])
         \<and> word_translation w' = word_translation w))"
  by (auto simp: generateVariations_def genderTag_def numberTag_def split: option.splits)

theorem tags_after_variation_witness:
  "word_type wordChat = NOUN
   \<and> (\<exists>w'. generateVariations wordChat Fem Sing = Inr w'
         \<and> word_tags w' = Some [lit ''feminine'', lit ''singular'']
         \<and> word_translation w' = lit ''cat'')
   \<and> word_type wordGrandMascSing = ADJECTIVE
   \<and> (\<exists>w'. generateVariations wordGrandMascSing Fem Plur = Inr w'
         \<and> word_tags w' = Some [lit ''masculine'', lit ''singular'', lit ''feminine'', lit ''plural'']
         \<and> word_translation w' = lit ''big'')"
proof -
  have n: "word_type wordChat = NOUN" by (simp add: wordChat_def createWord_def)
  have tr: "word_translation wordChat = lit ''cat''" by (simp add: wordChat_def createWord_def)
  from tags_after_variation [of wordChat Fem Sing] n tr
  have 1: "\<exists>w'. generateVariations wordChat Fem Sing = Inr w'
         \<and> word_tags w' = Some [lit ''feminine'', lit ''singular'']
         \<and> word_translation w' = lit ''cat''"
    by simp
  have a: "word_type wordGrandMascSing = ADJECTIVE"
    "tagsOrEmpty wordGrandMascSing = [lit ''masculine'', lit ''singular'']"
    "word_translation wordGrandMascSing = lit ''big''"
    by (simp_all add: wordGrandMascSing_def wordGrand_def createWord_def tagsOrEmpty_def)
  from tags_after_variation [of wordGrandMascSing Fem Plur] a grand_twice(2)
  have 2: "\<exists>w'. generateVariations wordGrandMascSing Fem Plur = Inr w'
         \<and> word_tags w' = Some [lit ''masculine'', lit ''singular'', lit ''feminine'', lit ''plural'']
         \<and> word_translation w' = lit ''big''"
    by simp
  show ?thesis by (intro conjI n 1 a(1) 2)
qed

text \<open>
  Claim C4, as stated, fails on both branches. The noun chat, tagged \<open>m\<close> and
  \<open>mutable\<close>, comes back with the two tags \<open>feminine\<close> and \<open>singular\<close> only: the
  tag \<open>mutable\<close> is gone. The adjective grand, already tagged \<open>masculine\<close> and
  \<open>singular\<close>, comes back with these two tags still there before \<open>feminine\<close> and
  \<open>plural\<close>.
\<close>

theorem tags_replaced_counterexample:
  "word_tags wordChat = Some [lit ''m'', lit ''mutable'']
   \<and> generateVariations wordChat Fem Sing =
       Inr (wordChat\<lparr> word_text := lit ''chatte'',
                       word_tags := Some [lit ''feminine'', lit ''singular''] \<rparr>)
   \<and> lit ''mutable'' \<notin> set [lit ''feminine'', lit ''singular'']
   \<and> generateVariations wordGrandMascSing Fem Plur =
       Inr (wordGrandMascSing\<lparr> word_text := lit ''grandes'',
              word_tags := Some [lit ''masculine'', lit ''singular'', lit ''feminine'', lit ''plural''] \<rparr>)"
proof -
  have 1: "word_tags wordChat = Some [lit ''m'', lit ''mutable'']"
    by (simp add: wordChat_def createWord_def)
  have 2: "lit ''mutable'' \<notin> set [lit ''feminine'', lit ''singular'']"
    by (simp add: lit_def)
  show ?thesis by (intro conjI 1 chat_feminine 2 grand_twice(2))
qed

text \<open>
  Claim C9 on a failing input. The adjective \<open>constructor\<close> is not in the table of
  irregular forms, so the claim asks for the regular rule (\<open>constructore\<close> in the
  feminine). The lookup in the object literal finds the inherited property of that name
  instead, the irregular branch is taken, and the text of the result is \<open>undefined\<close> for
  every gender and number but masculine singular.
\<close>

theorem adjective_inherited_key_undefined:
  "word_type wordConstructor = ADJECTIVE
   \<and> map_of irregularAdjectives (word_text wordConstructor) = None
   \<and> feminineAdjective_spec (word_text wordConstructor) = lit ''constructore''
   \<and> generateVariations wordConstructor Fem Sing = Inl UndefinedText
   \<and> generateVariations wordConstructor Masc Plur = Inl UndefinedText
   \<and> generateVariations wordConstructor Fem Plur = Inl UndefinedText"
  by (simp add: wordConstructor_def feminineAdjective_spec_def endsIn1_spec_def variation_eval)

end
